theory Spec2Isabelle
  imports Main
begin

section \<open>MLPipeline: Consumable and the pipeline Builder\<close>

text \<open>
  A shallow embedding of \<^verbatim>\<open>MLPipeline/consumable.py\<close> and
  \<^verbatim>\<open>MLPipeline/pipeline_builder.py\<close>. Python exceptions are values of the type
  \<open>error\<close>; a function that may raise returns \<open>error + 'a\<close>, with \<open>Inl\<close> the
  exception. The classes \<^verbatim>\<open>Pipeline\<close> and \<^verbatim>\<open>TaskFactory\<close> and the module
  \<^verbatim>\<open>utils\<close> are imported by the builder but are not among the sources.
\<close>

subsection \<open>Exceptions\<close>

datatype error =
    PipelineParsingError string
  | AttributeError
  | TypeError
  | KeyError
  | IndexError
  | InvalidTaskDefinition string
  | DuplicateOutputDefinition string
  | UnresolvedReference string string
  | CyclicDependency string
  | UnknownRunnerType string
  | RunnerExecutionError string
  | MissingExpectedOutput string

subsection \<open>consumable.py\<close>

record 'c Consumable =
  content :: 'c
  name :: string
  parent_task_name :: string

text \<open>
  \<^verbatim>\<open>__init__(self, name, content, parent_task_name='')\<close>: three assignments and no
  check. The optional third argument is an \<open>option\<close>; \<open>None\<close> is the omitted
  argument. The result is a sum so that a constructor that raised would show.
\<close>

definition Consumable_init :: "string \<Rightarrow> 'c \<Rightarrow> string option \<Rightarrow> error + 'c Consumable" where
  "Consumable_init nm c parent =
     Inr \<lparr>content = c, name = nm,
          parent_task_name = (case parent of None \<Rightarrow> [] | Some q \<Rightarrow> q)\<rparr>"

text \<open>The property \<^verbatim>\<open>full_name\<close>; a Python string is true when it is not empty.\<close>

definition full_name :: "'c Consumable \<Rightarrow> string" where
  "full_name c =
     (if parent_task_name c \<noteq> [] then parent_task_name c @ ''.'' @ name c else name c)"

subsection \<open>The parsed definition\<close>

text \<open>
  What \<^verbatim>\<open>yaml.load\<close> hands to the builder: a tree of strings, lists and mappings, and
  Python's \<^verbatim>\<open>None\<close> for an empty value. A mapping is an association list in key order,
  with string keys; lookup takes the first entry of a key.
\<close>

datatype yaml =
    YNone
  | YStr string
  | YList "yaml list"
  | YDict "(string \<times> yaml) list"

text \<open>Truth value of a Python object: \<^verbatim>\<open>None\<close> and empty containers are false.\<close>

fun truthy :: "yaml \<Rightarrow> bool" where
  "truthy YNone = False"
| "truthy (YStr s) = (s \<noteq> [])"
| "truthy (YList xs) = (xs \<noteq> [])"
| "truthy (YDict kvs) = (kvs \<noteq> [])"

text \<open>\<^verbatim>\<open>len(x)\<close>: \<^verbatim>\<open>None\<close> has no length.\<close>

fun py_len :: "yaml \<Rightarrow> error + nat" where
  "py_len YNone = Inl TypeError"
| "py_len (YStr s) = Inr (length s)"
| "py_len (YList xs) = Inr (length xs)"
| "py_len (YDict kvs) = Inr (length kvs)"

text \<open>
  \<^verbatim>\<open>for item in x\<close>: a list yields its items, a mapping its keys, a string its
  characters; \<^verbatim>\<open>None\<close> is not iterable.
\<close>

fun py_iter :: "yaml \<Rightarrow> error + yaml list" where
  "py_iter YNone = Inl TypeError"
| "py_iter (YStr s) = Inr (map (\<lambda>ch. YStr [ch]) s)"
| "py_iter (YList xs) = Inr xs"
| "py_iter (YDict kvs) = Inr (map (\<lambda>kv. YStr (fst kv)) kvs)"

text \<open>\<^verbatim>\<open>d[key]\<close> on a mapping, with a string key.\<close>

definition py_getitem :: "(string \<times> yaml) list \<Rightarrow> string \<Rightarrow> error + yaml" where
  "py_getitem d k = (case map_of d k of None \<Rightarrow> Inl KeyError | Some v \<Rightarrow> Inr v)"

text \<open>Lists and mappings cannot be hashed: looking one up in a dict or a set raises.\<close>

fun py_hashable :: "yaml \<Rightarrow> bool" where
  "py_hashable YNone = True"
| "py_hashable (YStr s) = True"
| "py_hashable (YList xs) = False"
| "py_hashable (YDict kvs) = False"

text \<open>Whether a value is a mapping, the only kind of value with \<^verbatim>\<open>get\<close> and \<^verbatim>\<open>keys\<close>.\<close>

fun is_mapping :: "yaml \<Rightarrow> bool" where
  "is_mapping (YDict kvs) = True"
| "is_mapping _ = False"

subsection \<open>Collaborators that are not among the sources\<close>

text \<open>
  Modelled from the spec: \<^verbatim>\<open>utils.is_subset_of\<close>, which the builder calls with the
  required keys first and the keys present second; the spec reads the check as "required
  keys", so the result is true when every element of the first list occurs in the second.
\<close>

definition is_subset_of :: "string list \<Rightarrow> string list \<Rightarrow> bool" where
  "is_subset_of xs ys = list_all (\<lambda>x. x \<in> set ys) xs"

text \<open>
  Modelled from the spec: the class \<^verbatim>\<open>Pipeline\<close> of \<^verbatim>\<open>pipeline.py\<close>. The spec gives
  it a name, the tasks as an ordered sequence in insertion order, the externally supplied
  inputs and the expected outputs as a set of names. The inputs and the expected outputs
  are kept here as the lists of what \<^verbatim>\<open>add_input\<close> and \<^verbatim>\<open>add_output\<close> received, in
  call order, so that an item added twice shows twice. The type of a task is a parameter.
\<close>

record ('t, 'c) Pipeline =
  pipeline_name :: yaml
  tasks :: "'t list"
  inputs :: "'c Consumable list"
  expected_outputs :: "yaml list"

definition Pipeline_init :: "yaml \<Rightarrow> ('t, 'c) Pipeline" where
  "Pipeline_init nm = \<lparr>pipeline_name = nm, tasks = [], inputs = [], expected_outputs = []\<rparr>"

definition add_task :: "('t, 'c) Pipeline \<Rightarrow> 't \<Rightarrow> ('t, 'c) Pipeline" where
  "add_task p t = p\<lparr>tasks := tasks p @ [t]\<rparr>"

definition add_input :: "('t, 'c) Pipeline \<Rightarrow> 'c Consumable \<Rightarrow> ('t, 'c) Pipeline" where
  "add_input p c = p\<lparr>inputs := inputs p @ [c]\<rparr>"

definition add_output :: "('t, 'c) Pipeline \<Rightarrow> yaml \<Rightarrow> ('t, 'c) Pipeline" where
  "add_output p out = p\<lparr>expected_outputs := expected_outputs p @ [out]\<rparr>"

text \<open>
  The spec's mapping of external inputs, from a name to its Consumable: the key is the
  full name, and a later \<^verbatim>\<open>add_input\<close> of the same key replaces the earlier one.
\<close>

definition external_inputs :: "('t, 'c) Pipeline \<Rightarrow> string \<rightharpoonup> 'c Consumable" where
  "external_inputs p = map_of (map (\<lambda>c. (full_name c, c)) (rev (inputs p)))"

subsection \<open>pipeline\_builder.py\<close>

text \<open>
  \<^verbatim>\<open>__init__\<close> sets \<^verbatim>\<open>parsed_yaml\<close> to the empty dict. \<^verbatim>\<open>load_yaml\<close> replaces it by
  whatever the document holds: a mapping, but also a list, a string, or \<^verbatim>\<open>None\<close> for an
  empty document.
\<close>

record 'c Builder =
  parsed_yaml :: yaml
  command_line_inputs :: "string \<rightharpoonup> 'c"

definition Builder_init :: "'c Builder" where
  "Builder_init = \<lparr>parsed_yaml = YDict [], command_line_inputs = Map.empty\<rparr>"

text \<open>\<^verbatim>\<open>load_yaml\<close> reads a file; here the parsed tree is given.\<close>

definition load_yaml :: "'c Builder \<Rightarrow> yaml \<Rightarrow> 'c Builder" where
  "load_yaml self tree = self\<lparr>parsed_yaml := tree\<rparr>"

definition pass_command_line_inputs :: "'c Builder \<Rightarrow> (string \<rightharpoonup> 'c) \<Rightarrow> 'c Builder" where
  "pass_command_line_inputs self given =
     self\<lparr>command_line_inputs := command_line_inputs self ++ given\<rparr>"

text \<open>
  Two collaborators are parameters of the builder's functions:
  \<^item> \<open>l2d\<close> is \<^verbatim>\<open>utils.list_of_dicts_to_dict\<close>, called only when \<^verbatim>\<open>bad_yaml\<close> is set;
  \<^item> \<open>spawn\<close> is \<^verbatim>\<open>TaskFactory().spawn_task(c_name, **component_dict)\<close>, which
    returns a task or raises; it is taken to depend on its arguments only.
\<close>

type_synonym kwargs = "(string \<times> yaml) list"

text \<open>
  Lines 72 to 84 of \<^verbatim>\<open>build_pipeline\<close>: the \<^verbatim>\<open>pipeline\<close> entry, converted when
  \<^verbatim>\<open>bad_yaml\<close> is set, then the check of its keys. The result is the mapping
  \<^verbatim>\<open>pipeline_content\<close>. Only a mapping has \<^verbatim>\<open>get\<close> and \<^verbatim>\<open>keys\<close>: on anything else
  the calls \<^verbatim>\<open>self.parsed_yaml.get('pipeline')\<close> and \<^verbatim>\<open>pipeline_content.keys()\<close> raise
  \<^verbatim>\<open>AttributeError\<close>.
\<close>

definition pipeline_entry :: "(yaml \<Rightarrow> error + yaml) \<Rightarrow> 'c Builder \<Rightarrow> bool \<Rightarrow> error + yaml" where
  "pipeline_entry l2d self bad_yaml =
     (case parsed_yaml self of
        YDict root \<Rightarrow>
          (case map_of root ''pipeline'' of
             None \<Rightarrow> Inl (PipelineParsingError ''Missing pipeline definition.'')
           | Some v \<Rightarrow>
               if truthy v then (if bad_yaml then l2d v else Inr v)
               else Inl (PipelineParsingError ''Missing pipeline definition.''))
      | _ \<Rightarrow> Inl AttributeError)"

definition read_definition :: "(yaml \<Rightarrow> error + yaml) \<Rightarrow> 'c Builder \<Rightarrow> bool \<Rightarrow> error + kwargs" where
  "read_definition l2d self bad_yaml =
     (case pipeline_entry l2d self bad_yaml of
        Inl e \<Rightarrow> Inl e
      | Inr pipeline_content \<Rightarrow>
          (case pipeline_content of
             YDict d \<Rightarrow>
               if \<not> is_subset_of [''name'', ''inputs'', ''outputs'', ''components''] (map fst d)
               then Inl (PipelineParsingError ''Pipeline missing key attributes.'')
               else Inr d
           | _ \<Rightarrow> Inl AttributeError))"

text \<open>
  The body of the loop over the components, up to the call of the factory (lines 99 to
  112): the name of the component and the keyword arguments for \<^verbatim>\<open>spawn_task\<close>.
  The length is tested first, on any value that has one; \<^verbatim>\<open>component.keys()\<close> and
  \<^verbatim>\<open>component_dict.keys()\<close> raise \<^verbatim>\<open>AttributeError\<close> on a value that is no mapping.
\<close>

definition parse_component :: "(yaml \<Rightarrow> error + yaml) \<Rightarrow> bool \<Rightarrow> yaml \<Rightarrow> error + (string \<times> kwargs)" where
  "parse_component l2d bad_yaml component =
     (case py_len component of
        Inl e \<Rightarrow> Inl e
      | Inr n \<Rightarrow>
          if n \<noteq> 1
          then Inl (PipelineParsingError
            ''Component root should be list of dicts of length one with its component.name as a key!'')
          else
            (case component of
               YDict kvs \<Rightarrow>
                 (case kvs of
                    [] \<Rightarrow> Inl IndexError
                  | (c_name, v) # _ \<Rightarrow>
                      (case (if bad_yaml then l2d v else Inr v) of
                         Inl e \<Rightarrow> Inl e
                       | Inr component_dict \<Rightarrow>
                           (case component_dict of
                              YDict d \<Rightarrow>
                                if \<not> is_subset_of [''runner'', ''inputs'', ''outputs''] (map fst d)
                                then Inl (PipelineParsingError
                                  (''Component '' @ c_name @ '' missing one of the key arguments!''))
                                else Inr (c_name, d)
                            | _ \<Rightarrow> Inl AttributeError)))
             | _ \<Rightarrow> Inl AttributeError))"

text \<open>
  The loop over the components. The second result of the state is the list of the calls
  of \<^verbatim>\<open>spawn_task\<close> made so far, in order: a task is constructed exactly there.
\<close>

fun add_components ::
  "(string \<Rightarrow> kwargs \<Rightarrow> error + 't) \<Rightarrow> (yaml \<Rightarrow> error + yaml) \<Rightarrow> bool \<Rightarrow> yaml list \<Rightarrow>
   (string \<times> kwargs) list \<Rightarrow> ('t, 'c) Pipeline \<Rightarrow>
   (string \<times> kwargs) list \<times> (error + ('t, 'c) Pipeline)" where
  "add_components spawn l2d bad_yaml [] calls pipeline = (calls, Inr pipeline)"
| "add_components spawn l2d bad_yaml (component # rest) calls pipeline =
     (case parse_component l2d bad_yaml component of
        Inl e \<Rightarrow> (calls, Inl e)
      | Inr (c_name, component_dict) \<Rightarrow>
          (case spawn c_name component_dict of
             Inl e \<Rightarrow> (calls @ [(c_name, component_dict)], Inl e)
           | Inr task_from_component \<Rightarrow>
               add_components spawn l2d bad_yaml rest
                 (calls @ [(c_name, component_dict)])
                 (add_task pipeline task_from_component)))"

text \<open>
  The loop over the declared inputs (lines 118 to 124). Membership in the dict of command
  line inputs hashes the item: a list or a mapping raises \<^verbatim>\<open>TypeError\<close>, and
  \<^verbatim>\<open>None\<close> is no key of it.
\<close>

fun add_inputs ::
  "(string \<rightharpoonup> 'c) \<Rightarrow> yaml list \<Rightarrow> ('t, 'c) Pipeline \<Rightarrow> error + ('t, 'c) Pipeline" where
  "add_inputs cli [] pipeline = Inr pipeline"
| "add_inputs cli (pipeline_input # rest) pipeline =
     (case pipeline_input of
        YStr s \<Rightarrow>
          (case cli s of
             Some v \<Rightarrow>
               (case Consumable_init s v None of
                  Inl e \<Rightarrow> Inl e
                | Inr consumable_from_input \<Rightarrow>
                    add_inputs cli rest (add_input pipeline consumable_from_input))
           | None \<Rightarrow>
               Inl (PipelineParsingError
                 (''Pipeline declared input '' @ s @ '' not found in command line inputs!'')))
      | YNone \<Rightarrow>
          Inl (PipelineParsingError
            ''Pipeline declared input None not found in command line inputs!'')
      | _ \<Rightarrow> Inl TypeError)"

text \<open>
  The loop over the declared outputs (lines 128 to 130). The membership test is on the
  spec's set of expected outputs, which hashes the item.
\<close>

fun add_outputs :: "yaml list \<Rightarrow> ('t, 'c) Pipeline \<Rightarrow> error + ('t, 'c) Pipeline" where
  "add_outputs [] pipeline = Inr pipeline"
| "add_outputs (pipeline_output # rest) pipeline =
     (if \<not> py_hashable pipeline_output then Inl TypeError
      else if pipeline_output \<notin> set (expected_outputs pipeline)
      then add_outputs rest (add_output pipeline pipeline_output)
      else add_outputs rest pipeline)"

text \<open>\<^verbatim>\<open>pipeline_content[key]\<close> as the sequence a \<^verbatim>\<open>for\<close> loop runs over.\<close>

definition items_of :: "kwargs \<Rightarrow> string \<Rightarrow> error + yaml list" where
  "items_of d k = (case py_getitem d k of Inl e \<Rightarrow> Inl e | Inr v \<Rightarrow> py_iter v)"

text \<open>
  What one call of \<^verbatim>\<open>build_pipeline\<close> does: the lines it printed, the calls of
  \<^verbatim>\<open>spawn_task\<close> it made, and the Pipeline it returned or the exception it raised.
\<close>

record ('t, 'c) build =
  stdout :: "string list"
  spawn_calls :: "(string \<times> kwargs) list"
  returned :: "error + ('t, 'c) Pipeline"

definition build_pipeline ::
  "(string \<Rightarrow> kwargs \<Rightarrow> error + 't) \<Rightarrow> (yaml \<Rightarrow> error + yaml) \<Rightarrow> 'c Builder \<Rightarrow> bool \<Rightarrow> bool \<Rightarrow>
   ('t, 'c) build" where
  "build_pipeline spawn l2d self bad_yaml verbose =
     (let printed = (if verbose then [''Building pipeline...''] else []) in
      case read_definition l2d self bad_yaml of
        Inl e \<Rightarrow> \<lparr>stdout = printed, spawn_calls = [], returned = Inl e\<rparr>
      | Inr pipeline_content \<Rightarrow>
          (case py_getitem pipeline_content ''name'' of
             Inl e \<Rightarrow> \<lparr>stdout = printed, spawn_calls = [], returned = Inl e\<rparr>
           | Inr nm \<Rightarrow>
               (case items_of pipeline_content ''components'' of
                  Inl e \<Rightarrow> \<lparr>stdout = printed, spawn_calls = [], returned = Inl e\<rparr>
                | Inr components \<Rightarrow>
                    (case add_components spawn l2d bad_yaml components [] (Pipeline_init nm) of
                       (calls, r) \<Rightarrow>
                         \<lparr>stdout = printed, spawn_calls = calls, returned =
                            (case r of
                               Inl e \<Rightarrow> Inl e
                             | Inr with_tasks \<Rightarrow>
                                 (case items_of pipeline_content ''inputs'' of
                                    Inl e \<Rightarrow> Inl e
                                  | Inr declared_inputs \<Rightarrow>
                                      (case add_inputs (command_line_inputs self)
                                              declared_inputs with_tasks of
                                         Inl e \<Rightarrow> Inl e
                                       | Inr with_inputs \<Rightarrow>
                                           (case items_of pipeline_content ''outputs'' of
                                              Inl e \<Rightarrow> Inl e
                                            | Inr declared_outputs \<Rightarrow>
                                                add_outputs declared_outputs with_inputs))))\<rparr>))))"

section \<open>Resolution and execution of a Pipeline\<close>

text \<open>
  The file \<^verbatim>\<open>pipeline.py\<close> and the task classes of \<^verbatim>\<open>pipeline_task.py\<close> are not among
  the sources. The definitions of this section follow sections 3, 4.4 and 4.5 of the
  specification, step by step.
\<close>

text \<open>
  Modelled from the spec: the Task of section 3, which \<^verbatim>\<open>pipeline_task.py\<close> would define:
  a name, the key of its runner, the input references (from a parameter name to the full
  name it depends on) and the declared outputs.
\<close>

record Task =
  task_name :: string
  runner_type :: string
  input_refs :: "(string \<times> string) list"
  declared_outputs :: "string list"

text \<open>
  Modelled from the spec: the producing identity of step 1 of section 4.4, either
  "external" or a task name.
\<close>

datatype producer = External | ProducedBy string

text \<open>
  Modelled from the spec: the full name under which an output of a task is known, the
  full name of a Consumable whose parent is the task.
\<close>

definition output_full_name :: "Task \<Rightarrow> string \<Rightarrow> string" where
  "output_full_name t out =
     full_name \<lparr>content = (), name = out, parent_task_name = task_name t\<rparr>"

text \<open>
  Modelled from the spec: the entries of the lookup table of step 1, from every full name
  of an external input and of every declared output of every task to its producer. The
  external inputs are a mapping and the declared outputs of one task are a set, so each
  contributes a key once.
\<close>

definition producers :: "(Task, 'c) Pipeline \<Rightarrow> (string \<times> producer) list" where
  "producers p =
     map (\<lambda>k. (k, External)) (remdups (map full_name (inputs p))) @
     concat (map (\<lambda>t. map (\<lambda>out. (output_full_name t out, ProducedBy (task_name t)))
                          (remdups (declared_outputs t))) (tasks p))"

text \<open>Modelled from the spec: the first key that two producers claim, for step 1.\<close>

fun first_duplicate :: "string list \<Rightarrow> string option" where
  "first_duplicate [] = None"
| "first_duplicate (k # ks) = (if k \<in> set ks then Some k else first_duplicate ks)"

text \<open>
  Modelled from the spec: step 1 of section 4.4, which fails with
  \<^verbatim>\<open>DuplicateOutputDefinition\<close> when two producers claim one full name.
\<close>

definition lookup_table :: "(Task, 'c) Pipeline \<Rightarrow> error + (string \<times> producer) list" where
  "lookup_table p =
     (case first_duplicate (map fst (producers p)) of
        Some k \<Rightarrow> Inl (DuplicateOutputDefinition k)
      | None \<Rightarrow> Inr (producers p))"

text \<open>
  Modelled from the spec: step 2 of section 4.4 for the references of one task. A missing
  entry fails with \<^verbatim>\<open>UnresolvedReference\<close>, naming the task and the reference; a
  reference to an output of the task itself fails with \<^verbatim>\<open>CyclicDependency\<close>.
\<close>

fun check_refs :: "(string \<times> producer) list \<Rightarrow> Task \<Rightarrow> (string \<times> string) list \<Rightarrow> error + unit" where
  "check_refs table t [] = Inr ()"
| "check_refs table t ((param, ref) # rest) =
     (case map_of table ref of
        None \<Rightarrow> Inl (UnresolvedReference (task_name t) ref)
      | Some External \<Rightarrow> check_refs table t rest
      | Some (ProducedBy n) \<Rightarrow>
          if n = task_name t then Inl (CyclicDependency (task_name t))
          else check_refs table t rest)"

text \<open>Modelled from the spec: step 2 of section 4.4, for each task in declaration order.\<close>

fun check_references :: "(string \<times> producer) list \<Rightarrow> Task list \<Rightarrow> error + unit" where
  "check_references table [] = Inr ()"
| "check_references table (t # ts) =
     (case check_refs table t (input_refs t) of
        Inl e \<Rightarrow> Inl e
      | Inr _ \<Rightarrow> check_references table ts)"

text \<open>
  Modelled from the spec: the edges of step 3. A task depends on the tasks named as the
  producers of its input references.
\<close>

definition dependencies :: "(string \<times> producer) list \<Rightarrow> Task \<Rightarrow> string list" where
  "dependencies table t =
     List.map_filter
       (\<lambda>pr. case map_of table (snd pr) of Some (ProducedBy n) \<Rightarrow> Some n | _ \<Rightarrow> None)
       (input_refs t)"

text \<open>
  Modelled from the spec: a task may run once none of the tasks still to be ordered is one
  it depends on (step 4: the producer runs before the consumer).
\<close>

definition ready :: "(string \<times> producer) list \<Rightarrow> Task list \<Rightarrow> Task \<Rightarrow> bool" where
  "ready table remaining t =
     list_all (\<lambda>b. task_name b \<notin> set (dependencies table t)) remaining"

text \<open>
  Modelled from the spec: the choice of the task that \<^verbatim>\<open>CyclicDependency\<close> names. When no
  remaining task is ready, each is blocked by a remaining task; following blockers for as
  many steps as there are remaining tasks ends on a cycle.
\<close>

definition blocker :: "(string \<times> producer) list \<Rightarrow> Task list \<Rightarrow> Task \<Rightarrow> Task" where
  "blocker table remaining t =
     (case find (\<lambda>b. task_name b \<in> set (dependencies table t)) remaining of
        Some b \<Rightarrow> b
      | None \<Rightarrow> t)"

text \<open>
  Modelled from the spec: step 4 of section 4.4, the stable topological order. The next
  task is the first ready one in declaration order; when tasks remain and none is ready
  there is a cycle, and the result is \<^verbatim>\<open>CyclicDependency\<close>.
\<close>

function toposort :: "(string \<times> producer) list \<Rightarrow> Task list \<Rightarrow> error + Task list" where
  "toposort table remaining =
     (case find (ready table remaining) remaining of
        Some t \<Rightarrow>
          (case toposort table (remove1 t remaining) of
             Inl e \<Rightarrow> Inl e
           | Inr order \<Rightarrow> Inr (t # order))
      | None \<Rightarrow>
          (case remaining of
             [] \<Rightarrow> Inr []
           | t # _ \<Rightarrow>
               Inl (CyclicDependency
                 (task_name ((blocker table remaining ^^ length remaining) t)))))"
  by pat_completeness auto
termination
proof (relation "measure (\<lambda>(table, remaining). length remaining)")
  show "wf (measure (\<lambda>(table, remaining). length remaining))"
    by simp
next
  fix table :: "(string \<times> producer) list" and remaining :: "Task list" and t
  assume "find (ready table remaining) remaining = Some t"
  then have "t \<in> set remaining"
    by (auto simp: find_Some_iff)
  then have "length (remove1 t remaining) < length remaining"
    using length_pos_if_in_set [of t remaining] by (simp add: length_remove1)
  then show "((table, remove1 t remaining), (table, remaining)) \<in>
      measure (\<lambda>(table, remaining). length remaining)"
    by simp
qed

declare toposort.simps [simp del]

text \<open>
  Modelled from the spec: the graph resolution of section 4.4, performed once before
  execution: the lookup table, the check of the references, the topological order.
\<close>

definition resolve :: "(Task, 'c) Pipeline \<Rightarrow> error + Task list" where
  "resolve p =
     (case lookup_table p of
        Inl e \<Rightarrow> Inl e
      | Inr table \<Rightarrow>
          (case check_references table (tasks p) of
             Inl e \<Rightarrow> Inl e
           | Inr _ \<Rightarrow> toposort table (tasks p)))"

text \<open>
  Modelled from the spec: the runner of section 4.2, a function from the resolved inputs
  (parameter name to Consumable) to the named outputs it produced, or to the cause of its
  failure.
\<close>

type_synonym 'c runner = "(string \<times> 'c Consumable) list \<Rightarrow> string + (string \<times> 'c) list"

text \<open>
  Modelled from the spec: what a run of section 4.5 leaves: the names of the tasks that
  were started, in order, and the availability registry or the error.
\<close>

record 'c run =
  executed :: "string list"
  outcome :: "error + (string \<times> 'c Consumable) list"

text \<open>
  Modelled from the spec: the availability registry before the first task, holding the
  external inputs under their full names.
\<close>

definition available_inputs :: "(Task, 'c) Pipeline \<Rightarrow> (string \<times> 'c Consumable) list" where
  "available_inputs p =
     map (\<lambda>k. (k, the (external_inputs p k))) (remdups (map full_name (inputs p)))"

text \<open>
  Modelled from the spec: gathering the resolved input Consumables of a task from the
  availability registry (section 4.5).
\<close>

fun gather_refs ::
  "(string \<times> 'c Consumable) list \<Rightarrow> Task \<Rightarrow> (string \<times> string) list \<Rightarrow>
   error + (string \<times> 'c Consumable) list" where
  "gather_refs avail t [] = Inr []"
| "gather_refs avail t ((param, ref) # rest) =
     (case map_of avail ref of
        None \<Rightarrow> Inl (UnresolvedReference (task_name t) ref)
      | Some c \<Rightarrow>
          (case gather_refs avail t rest of
             Inl e \<Rightarrow> Inl e
           | Inr got \<Rightarrow> Inr ((param, c) # got)))"

text \<open>
  Modelled from the spec: one task of section 4.5. The runner is created from the
  registry of runner types and invoked on the gathered inputs; a failure of the runner
  and a declared output it did not produce are a \<^verbatim>\<open>RunnerExecutionError\<close>, surplus outputs
  are ignored, and each declared output is registered under the full name of the task
  and the output.
\<close>

definition execute_task ::
  "(string \<rightharpoonup> 'c runner) \<Rightarrow> (string \<times> 'c Consumable) list \<Rightarrow> Task \<Rightarrow>
   error + (string \<times> 'c Consumable) list" where
  "execute_task registry avail t =
     (case registry (runner_type t) of
        None \<Rightarrow> Inl (UnknownRunnerType (runner_type t))
      | Some runner \<Rightarrow>
          (case gather_refs avail t (input_refs t) of
             Inl e \<Rightarrow> Inl e
           | Inr got \<Rightarrow>
               (case runner got of
                  Inl cause \<Rightarrow> Inl (RunnerExecutionError cause)
                | Inr outs \<Rightarrow>
                    (case find (\<lambda>out. map_of outs out = None) (remdups (declared_outputs t)) of
                       Some out \<Rightarrow> Inl (RunnerExecutionError out)
                     | None \<Rightarrow>
                         Inr (avail @
                           map (\<lambda>out. (output_full_name t out,
                                  \<lparr>content = the (map_of outs out), name = out,
                                   parent_task_name = task_name t\<rparr>))
                             (remdups (declared_outputs t)))))))"

text \<open>
  Modelled from the spec: the tasks run strictly in the resolved order, and the first
  failure aborts the run (section 4.5).
\<close>

fun execute ::
  "(string \<rightharpoonup> 'c runner) \<Rightarrow> Task list \<Rightarrow> (string \<times> 'c Consumable) list \<Rightarrow> string list \<Rightarrow>
   'c run" where
  "execute registry [] avail started = \<lparr>executed = started, outcome = Inr avail\<rparr>"
| "execute registry (t # ts) avail started =
     (case execute_task registry avail t of
        Inl e \<Rightarrow> \<lparr>executed = started @ [task_name t], outcome = Inl e\<rparr>
      | Inr avail' \<Rightarrow> execute registry ts avail' (started @ [task_name t]))"

text \<open>Modelled from the spec: the name that \<^verbatim>\<open>MissingExpectedOutput\<close> reports.\<close>

fun expected_name :: "yaml \<Rightarrow> string" where
  "expected_name (YStr s) = s"
| "expected_name _ = ''None''"

text \<open>
  Modelled from the spec: an expected output is present when its name is a key of the
  availability registry.
\<close>

definition expected_present :: "(string \<times> 'c Consumable) list \<Rightarrow> yaml \<Rightarrow> bool" where
  "expected_present avail out =
     (case out of YStr s \<Rightarrow> map_of avail s \<noteq> None | _ \<Rightarrow> False)"

text \<open>
  Modelled from the spec: \<^verbatim>\<open>Pipeline.run\<close>. The graph is resolved first; the structural
  errors, an unknown runner type among them, are detected before any task executes
  (section 7); the tasks are executed; the expected outputs are verified.
\<close>

definition run :: "(string \<rightharpoonup> 'c runner) \<Rightarrow> (Task, 'c) Pipeline \<Rightarrow> 'c run" where
  "run registry p =
     (case resolve p of
        Inl e \<Rightarrow> \<lparr>executed = [], outcome = Inl e\<rparr>
      | Inr order \<Rightarrow>
          (case find (\<lambda>t. registry (runner_type t) = None) order of
             Some t \<Rightarrow> \<lparr>executed = [], outcome = Inl (UnknownRunnerType (runner_type t))\<rparr>
           | None \<Rightarrow>
               (let r = execute registry order (available_inputs p) [] in
                case outcome r of
                  Inl e \<Rightarrow> r
                | Inr avail \<Rightarrow>
                    (case find (\<lambda>out. \<not> expected_present avail out) (expected_outputs p) of
                       Some out \<Rightarrow> r\<lparr>outcome := Inl (MissingExpectedOutput (expected_name out))\<rparr>
                     | None \<Rightarrow> r))))"


section \<open>Worked examples\<close>

subsection \<open>A worked definition\<close>

text \<open>
  The scenario of the spec: an external input \<^verbatim>\<open>raw\<close>, the tasks \<^verbatim>\<open>clean\<close> and
  \<^verbatim>\<open>train\<close>, and the expected output \<^verbatim>\<open>train.model\<close>, here declared twice. The
  factory of the example returns the name and the keyword arguments it was called with.
\<close>

definition example_clean :: kwargs where
  "example_clean = [(''runner'', YStr ''noop''), (''inputs'', YDict [(''raw'', YStr ''raw'')]),
     (''outputs'', YList [YStr ''clean_data''])]"

definition example_train :: kwargs where
  "example_train = [(''runner'', YStr ''noop''),
     (''inputs'', YDict [(''data'', YStr ''clean.clean_data'')]),
     (''outputs'', YList [YStr ''model''])]"

definition example_definition :: yaml where
  "example_definition =
     YDict [(''pipeline'', YDict
        [(''name'', YStr ''demo''),
         (''inputs'', YList [YStr ''raw'']),
         (''outputs'', YList [YStr ''train.model'', YStr ''train.model'']),
         (''components'', YList
            [YDict [(''clean'', YDict example_clean)],
             YDict [(''train'', YDict example_train)]])])]"

definition example_builder :: "string Builder" where
  "example_builder =
     pass_command_line_inputs (load_yaml Builder_init example_definition) [''raw'' \<mapsto> ''x'']"

definition example_spawn :: "string \<Rightarrow> kwargs \<Rightarrow> error + (string \<times> kwargs)" where
  "example_spawn c_name component_dict = Inr (c_name, component_dict)"

definition example_pipeline :: "(string \<times> kwargs, string) Pipeline" where
  "example_pipeline =
     \<lparr>pipeline_name = YStr ''demo'',
      tasks = [(''clean'', example_clean), (''train'', example_train)],
      inputs = [\<lparr>content = ''x'', name = ''raw'', parent_task_name = []\<rparr>],
      expected_outputs = [YStr ''train.model'']\<rparr>"


text \<open>
  Variants of the worked definition: one whose \<^verbatim>\<open>pipeline\<close> entry lacks two required
  keys, a component entry with two keys, a definition whose second component is that
  entry, and the worked definition with no command line input passed.
\<close>

definition example_incomplete :: "string Builder" where
  "example_incomplete =
     load_yaml Builder_init
       (YDict
         [(''pipeline'', YDict [(''name'', YStr ''demo''), (''inputs'', YList [YStr ''raw''])])])"



definition example_unsupplied :: "string Builder" where
  "example_unsupplied = load_yaml Builder_init example_definition"

text \<open>
  Definitions with a value that is no mapping where the builder expects one: a
  \<^verbatim>\<open>pipeline\<close> entry that is a string, an empty document, and a component entry that is
  a list of one item.
\<close>

definition example_string_entry :: "string Builder" where
  "example_string_entry = load_yaml Builder_init (YDict [(''pipeline'', YStr ''abc'')])"

definition example_empty_document :: "string Builder" where
  "example_empty_document = load_yaml Builder_init YNone"


text \<open>
  Two Pipelines of spec tasks: one in which \<^verbatim>\<open>a\<close> consumes the output of \<^verbatim>\<open>b\<close> and
  \<^verbatim>\<open>b\<close> the output of \<^verbatim>\<open>a\<close>, and the scenario of the spec with \<^verbatim>\<open>train\<close> declared
  before \<^verbatim>\<open>clean\<close>. The runner of the example produces both outputs of the scenario.
\<close>

definition example_task_a :: Task where
  "example_task_a = \<lparr>task_name = ''a'', runner_type = ''noop'',
     input_refs = [(''x'', ''b.out'')], declared_outputs = [''out'']\<rparr>"

definition example_task_b :: Task where
  "example_task_b = \<lparr>task_name = ''b'', runner_type = ''noop'',
     input_refs = [(''y'', ''a.out'')], declared_outputs = [''out'']\<rparr>"

definition example_cyclic :: "(Task, string) Pipeline" where
  "example_cyclic = \<lparr>pipeline_name = YStr ''loop'', tasks = [example_task_a, example_task_b],
     inputs = [], expected_outputs = []\<rparr>"

definition example_task_clean :: Task where
  "example_task_clean = \<lparr>task_name = ''clean'', runner_type = ''noop'',
     input_refs = [(''raw'', ''raw'')], declared_outputs = [''clean_data'']\<rparr>"

definition example_task_train :: Task where
  "example_task_train = \<lparr>task_name = ''train'', runner_type = ''noop'',
     input_refs = [(''data'', ''clean.clean_data'')], declared_outputs = [''model'']\<rparr>"

definition example_resolved :: "(Task, string) Pipeline" where
  "example_resolved = \<lparr>pipeline_name = YStr ''demo'',
     tasks = [example_task_train, example_task_clean],
     inputs = [\<lparr>content = ''x'', name = ''raw'', parent_task_name = []\<rparr>],
     expected_outputs = [YStr ''train.model'']\<rparr>"

definition example_registry :: "string \<rightharpoonup> string runner" where
  "example_registry =
     [''noop'' \<mapsto> (\<lambda>got. Inr [(''clean_data'', ''c''), (''model'', ''m'')])]"

section \<open>Properties of the loops\<close>

lemma add_components_result:
  "add_components spawn l2d bad comps calls p = (calls', Inr p') \<Longrightarrow>
   inputs p' = inputs p \<and> expected_outputs p' = expected_outputs p \<and>
   pipeline_name p' = pipeline_name p \<and>
   (\<exists>ts cs. tasks p' = tasks p @ ts \<and> calls' = calls @ cs \<and>
      map (parse_component l2d bad) comps = map Inr cs \<and>
      map (\<lambda>nk. spawn (fst nk) (snd nk)) cs = map Inr ts)"
proof (induction comps arbitrary: calls p)
  case Nil
  then show ?case by simp
next
  case (Cons c comps)
  from Cons.prems obtain n kw t where
    pc: "parse_component l2d bad c = Inr (n, kw)" and sp: "spawn n kw = Inr t" and
    rest: "add_components spawn l2d bad comps (calls @ [(n, kw)]) (add_task p t) = (calls', Inr p')"
    by (auto split: sum.splits prod.splits)
  from Cons.IH [OF rest] obtain ts cs where
    a: "inputs p' = inputs p" "expected_outputs p' = expected_outputs p"
       "pipeline_name p' = pipeline_name p" and
    b: "tasks p' = tasks (add_task p t) @ ts" "calls' = (calls @ [(n, kw)]) @ cs"
       "map (parse_component l2d bad) comps = map Inr cs"
       "map (\<lambda>nk. spawn (fst nk) (snd nk)) cs = map Inr ts"
    by (auto simp: add_task_def)
  have "tasks p' = tasks p @ (t # ts)" "calls' = calls @ ((n, kw) # cs)"
    "map (parse_component l2d bad) (c # comps) = map Inr ((n, kw) # cs)"
    "map (\<lambda>nk. spawn (fst nk) (snd nk)) ((n, kw) # cs) = map Inr (t # ts)"
    using b pc sp by (simp_all add: add_task_def)
  then show ?case
    by (intro conjI exI [of _ "t # ts"] exI [of _ "(n, kw) # cs"]) (use a in simp_all)
qed

lemma add_components_error_calls:
  "add_components spawn l2d bad comps calls p = (calls', r) \<Longrightarrow> \<exists>cs. calls' = calls @ cs"
proof (induction comps arbitrary: calls p)
  case Nil then show ?case by simp
next
  case (Cons c comps)
  then show ?case
    by (fastforce split: sum.splits prod.splits)
qed

lemma add_inputs_result:
  "add_inputs cli items p = Inr p' \<Longrightarrow>
   tasks p' = tasks p \<and> expected_outputs p' = expected_outputs p \<and>
   pipeline_name p' = pipeline_name p \<and>
   (\<exists>names. items = map YStr names \<and> (\<forall>n \<in> set names. cli n \<noteq> None) \<and>
      inputs p' = inputs p @
        map (\<lambda>n. \<lparr>content = the (cli n), name = n, parent_task_name = []\<rparr>) names)"
proof (induction items arbitrary: p)
  case Nil
  then show ?case by simp
next
  case (Cons x items)
  from Cons.prems obtain s v where
    x: "x = YStr s" and v: "cli s = Some v" and
    rest: "add_inputs cli items
             (add_input p \<lparr>content = v, name = s, parent_task_name = []\<rparr>) = Inr p'"
    by (auto simp: Consumable_init_def split: yaml.splits option.splits)
  from Cons.IH [OF rest] obtain names where
    a: "tasks p' = tasks p" "expected_outputs p' = expected_outputs p"
       "pipeline_name p' = pipeline_name p" and
    b: "items = map YStr names" "\<forall>n \<in> set names. cli n \<noteq> None"
       "inputs p' = (inputs p @ [\<lparr>content = v, name = s, parent_task_name = []\<rparr>]) @
          map (\<lambda>n. \<lparr>content = the (cli n), name = n, parent_task_name = []\<rparr>) names"
    by (auto simp: add_input_def)
  have "x # items = map YStr (s # names)" "\<forall>n \<in> set (s # names). cli n \<noteq> None"
    "inputs p' = inputs p @
       map (\<lambda>n. \<lparr>content = the (cli n), name = n, parent_task_name = []\<rparr>) (s # names)"
    using b x v by simp_all
  then show ?case
    by (intro conjI exI [of _ "s # names"]) (use a in simp_all)
qed

lemma add_outputs_fields:
  "add_outputs outs p = Inr p' \<Longrightarrow>
   tasks p' = tasks p \<and> inputs p' = inputs p \<and> pipeline_name p' = pipeline_name p"
  by (induction outs arbitrary: p) (auto simp: add_output_def split: if_splits)

lemma remdups_append_cong:
  "remdups zs = remdups zs' \<Longrightarrow> set zs = set zs' \<Longrightarrow> remdups (ys @ zs) = remdups (ys @ zs')"
  by (induction ys) auto

lemma add_outputs_result:
  "add_outputs outs p = Inr p' \<Longrightarrow> distinct (expected_outputs p) \<Longrightarrow>
   expected_outputs p' = rev (remdups (rev (expected_outputs p @ outs)))"
proof (induction outs arbitrary: p)
  case Nil
  then show ?case by (simp add: distinct_remdups_id)
next
  case (Cons x outs)
  show ?case
  proof (cases "x \<in> set (expected_outputs p)")
    case True
    with Cons.prems have rest: "add_outputs outs p = Inr p'"
      by (auto split: if_splits)
    have "remdups (rev outs @ x # rev (expected_outputs p)) =
          remdups (rev outs @ rev (expected_outputs p))"
      by (rule remdups_append_cong) (use True in \<open>auto\<close>)
    with Cons.IH [OF rest Cons.prems(2)] show ?thesis by simp
  next
    case False
    with Cons.prems have rest: "add_outputs outs (add_output p x) = Inr p'"
      by (auto split: if_splits)
    have d: "distinct (expected_outputs (add_output p x))"
      using False Cons.prems(2) by (simp add: add_output_def)
    from Cons.IH [OF rest d] show ?thesis by (simp add: add_output_def)
  qed
qed

lemma build_pipeline_returned:
  assumes "returned (build_pipeline spawn l2d self bad verbose) = Inr p"
  shows "\<exists>d nm comps p1 ins p2 outs.
      read_definition l2d self bad = Inr d \<and> py_getitem d ''name'' = Inr nm \<and>
      items_of d ''components'' = Inr comps \<and>
      add_components spawn l2d bad comps [] (Pipeline_init nm) =
        (spawn_calls (build_pipeline spawn l2d self bad verbose), Inr p1) \<and>
      items_of d ''inputs'' = Inr ins \<and>
      add_inputs (command_line_inputs self) ins p1 = Inr p2 \<and>
      items_of d ''outputs'' = Inr outs \<and> add_outputs outs p2 = Inr p"
  using assms unfolding build_pipeline_def Let_def
  by (auto split: sum.splits prod.splits)

lemma is_subset_of_iff: "is_subset_of xs ys \<longleftrightarrow> set xs \<subseteq> set ys"
  by (auto simp: is_subset_of_def list_all_iff)

lemma read_definition_keys:
  "read_definition l2d self bad = Inr d \<Longrightarrow>
   set [''name'', ''inputs'', ''outputs'', ''components''] \<subseteq> fst ` set d"
  unfolding read_definition_def
  by (auto simp: is_subset_of_iff split: sum.splits yaml.splits if_splits)

lemma py_getitem_present: "k \<in> fst ` set d \<Longrightarrow> \<exists>v. py_getitem d k = Inr v"
  by (cases "map_of d k") (auto simp: py_getitem_def map_of_eq_None_iff)

lemma build_pipeline_failed_read:
  "read_definition l2d self bad = Inl e \<Longrightarrow>
   build_pipeline spawn l2d self bad verbose =
     \<lparr>stdout = (if verbose then [''Building pipeline...''] else []), spawn_calls = [],
      returned = Inl e\<rparr>"
  by (simp add: build_pipeline_def)

lemma build_pipeline_components:
  assumes "read_definition l2d self bad = Inr d" "py_getitem d ''name'' = Inr nm"
    "items_of d ''components'' = Inr comps"
    "add_components spawn l2d bad comps [] (Pipeline_init nm) = (calls, r)"
  shows "spawn_calls (build_pipeline spawn l2d self bad verbose) = calls \<and>
    returned (build_pipeline spawn l2d self bad verbose) =
      (case r of
         Inl e \<Rightarrow> Inl e
       | Inr p1 \<Rightarrow>
           (case items_of d ''inputs'' of
              Inl e \<Rightarrow> Inl e
            | Inr ins \<Rightarrow>
                (case add_inputs (command_line_inputs self) ins p1 of
                   Inl e \<Rightarrow> Inl e
                 | Inr p2 \<Rightarrow>
                     (case items_of d ''outputs'' of
                        Inl e \<Rightarrow> Inl e
                      | Inr outs \<Rightarrow> add_outputs outs p2))))"
  using assms by (simp add: build_pipeline_def)



lemma add_inputs_first_absent:
  "\<forall>m \<in> set pre. cli m \<noteq> None \<Longrightarrow> cli n = None \<Longrightarrow>
   add_inputs cli (map YStr (pre @ n # post)) q =
     Inl (PipelineParsingError
       (''Pipeline declared input '' @ n @ '' not found in command line inputs!''))"
  by (induction pre arbitrary: q) (auto simp: Consumable_init_def)

lemma build_pipeline_shape:
  assumes "returned (build_pipeline spawn l2d self bad verbose) = Inr p"
  shows "\<exists>d comps names outs.
      read_definition l2d self bad = Inr d \<and>
      py_getitem d ''name'' = Inr (pipeline_name p) \<and>
      items_of d ''components'' = Inr comps \<and>
      map (parse_component l2d bad) comps =
        map Inr (spawn_calls (build_pipeline spawn l2d self bad verbose)) \<and>
      map (\<lambda>nk. spawn (fst nk) (snd nk)) (spawn_calls (build_pipeline spawn l2d self bad verbose)) =
        map Inr (tasks p) \<and>
      items_of d ''inputs'' = Inr (map YStr names) \<and>
      (\<forall>n \<in> set names. command_line_inputs self n \<noteq> None) \<and>
      inputs p =
        map (\<lambda>n. \<lparr>content = the (command_line_inputs self n), name = n,
                   parent_task_name = []\<rparr>) names \<and>
      items_of d ''outputs'' = Inr outs \<and>
      expected_outputs p = rev (remdups (rev outs))"
proof -
  from build_pipeline_returned [OF assms] obtain d nm comps p1 ins p2 outs where
    rd: "read_definition l2d self bad = Inr d" and nm: "py_getitem d ''name'' = Inr nm" and
    comps: "items_of d ''components'' = Inr comps" and
    ac: "add_components spawn l2d bad comps [] (Pipeline_init nm) =
        (spawn_calls (build_pipeline spawn l2d self bad verbose), Inr p1)" and
    ins: "items_of d ''inputs'' = Inr ins" and
    ai: "add_inputs (command_line_inputs self) ins p1 = Inr p2" and
    outs: "items_of d ''outputs'' = Inr outs" and ao: "add_outputs outs p2 = Inr p"
    by blast
  have init: "tasks (Pipeline_init nm :: ('a, 'b) Pipeline) = []"
    "inputs (Pipeline_init nm :: ('a, 'b) Pipeline) = []"
    "expected_outputs (Pipeline_init nm :: ('a, 'b) Pipeline) = []"
    "pipeline_name (Pipeline_init nm :: ('a, 'b) Pipeline) = nm"
    by (simp_all add: Pipeline_init_def)
  from add_components_result [OF ac] init obtain
    p1: "inputs p1 = []" "expected_outputs p1 = []" "pipeline_name p1 = nm" and
    p1t: "map (parse_component l2d bad) comps =
            map Inr (spawn_calls (build_pipeline spawn l2d self bad verbose))"
         "map (\<lambda>nk. spawn (fst nk) (snd nk))
            (spawn_calls (build_pipeline spawn l2d self bad verbose)) = map Inr (tasks p1)"
    by auto
  from add_inputs_result [OF ai] p1 obtain names where
    p2: "tasks p2 = tasks p1" "expected_outputs p2 = []" "pipeline_name p2 = nm" and
    p2i: "ins = map YStr names" "\<forall>n \<in> set names. command_line_inputs self n \<noteq> None"
      "inputs p2 = map (\<lambda>n. \<lparr>content = the (command_line_inputs self n), name = n,
                   parent_task_name = []\<rparr>) names"
    by auto
  from add_outputs_fields [OF ao] p2 p2i have
    p: "tasks p = tasks p1" "pipeline_name p = nm"
      "inputs p = map (\<lambda>n. \<lparr>content = the (command_line_inputs self n), name = n,
                   parent_task_name = []\<rparr>) names"
    by simp_all
  from add_outputs_result [OF ao] p2 have po: "expected_outputs p = rev (remdups (rev outs))"
    by simp
  show ?thesis
    by (intro exI [of _ d] exI [of _ comps] exI [of _ names] exI [of _ outs] conjI)
      (use rd nm comps p1t ins p2i outs p po in simp_all)
qed





lemma map_eq_nth:
  "map f xs = map g ys \<Longrightarrow> length xs = length ys \<and> (\<forall>i < length xs. f (xs ! i) = g (ys ! i))"
  by (metis length_map nth_map)


lemma pipeline_entry_mapping:
  "parsed_yaml self = YDict root \<Longrightarrow> map_of root ''pipeline'' = Some (YDict d) \<Longrightarrow> d \<noteq> [] \<Longrightarrow>
   pipeline_entry l2d self False = Inr (YDict d)"
  by (simp add: pipeline_entry_def)

lemma read_definition_missing_key:
  "pipeline_entry l2d self bad = Inr (YDict d) \<Longrightarrow>
   k \<in> set [''name'', ''inputs'', ''outputs'', ''components''] \<Longrightarrow> k \<notin> fst ` set d \<Longrightarrow>
   read_definition l2d self bad = Inl (PipelineParsingError ''Pipeline missing key attributes.'')"
  unfolding read_definition_def
  by (auto simp: is_subset_of_iff)

lemma read_definition_no_entry:
  "parsed_yaml self = YDict root \<Longrightarrow> map_of root ''pipeline'' = None \<Longrightarrow>
   read_definition l2d self bad = Inl (PipelineParsingError ''Missing pipeline definition.'')"
  by (simp add: read_definition_def pipeline_entry_def)

lemma read_definition_falsy_entry:
  "parsed_yaml self = YDict root \<Longrightarrow> map_of root ''pipeline'' = Some v \<Longrightarrow> \<not> truthy v \<Longrightarrow>
   read_definition l2d self bad = Inl (PipelineParsingError ''Missing pipeline definition.'')"
  by (simp add: read_definition_def pipeline_entry_def)

lemma read_definition_no_mapping:
  "\<not> is_mapping (parsed_yaml self) \<Longrightarrow> read_definition l2d self bad = Inl AttributeError"
  by (cases "parsed_yaml self") (simp_all add: read_definition_def pipeline_entry_def)

lemma read_definition_entry_no_mapping:
  "parsed_yaml self = YDict root \<Longrightarrow> map_of root ''pipeline'' = Some v \<Longrightarrow> truthy v \<Longrightarrow>
   \<not> is_mapping v \<Longrightarrow> read_definition l2d self False = Inl AttributeError"
  by (cases v) (simp_all add: read_definition_def pipeline_entry_def)




section \<open>Properties of the resolution\<close>

lemma first_duplicate_None: "first_duplicate ks = None \<longleftrightarrow> distinct ks"
  by (induction ks) auto

lemma toposort_mutual:
  "X \<in> set remaining \<Longrightarrow> Y \<in> set remaining \<Longrightarrow>
   task_name Y \<in> set (dependencies table X) \<Longrightarrow> task_name X \<in> set (dependencies table Y) \<Longrightarrow>
   \<exists>n. toposort table remaining = Inl (CyclicDependency n)"
proof (induction table remaining rule: toposort.induct)
  case (1 table remaining)
  show ?case
  proof (cases "find (ready table remaining) remaining")
    case None
    then have "toposort table remaining =
        (case remaining of
           [] \<Rightarrow> Inr []
         | t # _ \<Rightarrow>
             Inl (CyclicDependency
               (task_name ((blocker table remaining ^^ length remaining) t))))"
      by (subst toposort.simps) simp
    moreover from "1.prems"(1) obtain a rest where "remaining = a # rest"
      by (cases remaining) auto
    ultimately show ?thesis
      by simp
  next
    case (Some t)
    then have rt: "ready table remaining t"
      by (auto simp: find_Some_iff)
    have "t \<noteq> X" "t \<noteq> Y"
      using rt "1.prems" by (auto simp: ready_def list_all_iff)
    then have "X \<in> set (remove1 t remaining)" "Y \<in> set (remove1 t remaining)"
      using "1.prems" by auto
    from "1.IH" [OF Some this "1.prems"(3,4)] obtain n where
      "toposort table (remove1 t remaining) = Inl (CyclicDependency n)"
      by blast
    with Some show ?thesis
      by (subst toposort.simps) simp
  qed
qed

lemma lookup_table_cases:
  "(\<exists>k. lookup_table p = Inl (DuplicateOutputDefinition k) \<and> \<not> distinct (map fst (producers p))) \<or>
   (lookup_table p = Inr (producers p) \<and> distinct (map fst (producers p)))"
  by (cases "first_duplicate (map fst (producers p))")
    (use first_duplicate_None [of "map fst (producers p)"] in \<open>auto simp: lookup_table_def\<close>)

lemma producers_task_output:
  "t \<in> set (tasks p) \<Longrightarrow> out \<in> set (declared_outputs t) \<Longrightarrow>
   (output_full_name t out, ProducedBy (task_name t)) \<in> set (producers p)"
  by (auto simp: producers_def)

lemma dependencies_mem:
  assumes "distinct (map fst table)" "(ref, ProducedBy n) \<in> set table"
    "ref \<in> snd ` set (input_refs t)"
  shows "n \<in> set (dependencies table t)"
proof -
  from assms(1,2) have "map_of table ref = Some (ProducedBy n)"
    by (rule map_of_is_SomeI)
  moreover from assms(3) obtain param where "(param, ref) \<in> set (input_refs t)"
    by auto
  ultimately show ?thesis
    by (force simp: dependencies_def List.map_filter_def image_iff)
qed

lemma check_refs_resolved:
  "snd ` set refs \<subseteq> fst ` set table \<Longrightarrow>
   check_refs table t refs = Inr () \<or> (\<exists>n. check_refs table t refs = Inl (CyclicDependency n))"
proof (induction refs)
  case Nil
  then show ?case by simp
next
  case (Cons pr refs)
  obtain param ref where pr: "pr = (param, ref)"
    by (cases pr)
  with Cons.prems have "ref \<in> fst ` set table"
    by auto
  then obtain w where w: "map_of table ref = Some w"
    by (cases "map_of table ref") (auto simp: map_of_eq_None_iff)
  from Cons have "check_refs table t refs = Inr () \<or>
      (\<exists>n. check_refs table t refs = Inl (CyclicDependency n))"
    by simp
  with w pr show ?case
    by (cases w) auto
qed

lemma check_references_resolved:
  "\<forall>t \<in> set ts. snd ` set (input_refs t) \<subseteq> fst ` set table \<Longrightarrow>
   check_references table ts = Inr () \<or>
   (\<exists>n. check_references table ts = Inl (CyclicDependency n))"
proof (induction ts)
  case Nil
  then show ?case by simp
next
  case (Cons t ts)
  then have "check_refs table t (input_refs t) = Inr () \<or>
      (\<exists>n. check_refs table t (input_refs t) = Inl (CyclicDependency n))"
    by (intro check_refs_resolved) simp
  with Cons show ?case
    by auto
qed

lemma run_unresolved: "resolve p = Inl e \<Longrightarrow> run registry p = \<lparr>executed = [], outcome = Inl e\<rparr>"
  by (simp add: run_def)

lemma toposort_of_pipeline:
  fixes p :: "(Task, 'c) Pipeline"
  assumes "X \<in> set (tasks p)" "Y \<in> set (tasks p)"
    and "\<exists>out \<in> set (declared_outputs Y). output_full_name Y out \<in> snd ` set (input_refs X)"
    and "\<exists>out \<in> set (declared_outputs X). output_full_name X out \<in> snd ` set (input_refs Y)"
    and "distinct (map fst (producers p))"
  shows "\<exists>n. toposort (producers p) (tasks p) = Inl (CyclicDependency n)"
proof -
  from assms(3) obtain outY where
    "outY \<in> set (declared_outputs Y)" "output_full_name Y outY \<in> snd ` set (input_refs X)"
    by blast
  with assms(2,5) have xy: "task_name Y \<in> set (dependencies (producers p) X)"
    by (blast intro: dependencies_mem producers_task_output)
  from assms(4) obtain outX where
    "outX \<in> set (declared_outputs X)" "output_full_name X outX \<in> snd ` set (input_refs Y)"
    by blast
  with assms(1,5) have yx: "task_name X \<in> set (dependencies (producers p) Y)"
    by (blast intro: dependencies_mem producers_task_output)
  from assms(1,2) xy yx show ?thesis
    by (rule toposort_mutual)
qed

section \<open>The worked definition, evaluated\<close>

lemma example_read: "read_definition Inr example_builder False =
   Inr [(''name'', YStr ''demo''),
         (''inputs'', YList [YStr ''raw'']),
         (''outputs'', YList [YStr ''train.model'', YStr ''train.model'']),
         (''components'', YList
            [YDict [(''clean'', YDict example_clean)],
             YDict [(''train'', YDict example_train)]])]"
  by (simp add: read_definition_def pipeline_entry_def example_builder_def load_yaml_def
      pass_command_line_inputs_def Builder_init_def example_definition_def is_subset_of_def)

lemma example_parse:
  "parse_component Inr False (YDict [(''clean'', YDict example_clean)]) = Inr (''clean'', example_clean)"
  "parse_component Inr False (YDict [(''train'', YDict example_train)]) = Inr (''train'', example_train)"
  by (simp_all add: parse_component_def is_subset_of_def example_clean_def example_train_def)

lemma example_build:
  "build_pipeline example_spawn Inr example_builder False verbose =
     \<lparr>stdout = (if verbose then [''Building pipeline...''] else []),
      spawn_calls = [(''clean'', example_clean), (''train'', example_train)],
      returned = Inr example_pipeline\<rparr>"
  unfolding build_pipeline_def Let_def example_read
  by (simp add: py_getitem_def items_of_def example_parse example_spawn_def Pipeline_init_def
      add_task_def add_input_def add_output_def Consumable_init_def example_pipeline_def
      example_builder_def load_yaml_def pass_command_line_inputs_def Builder_init_def)





lemma example_unsupplied_read: "read_definition Inr example_unsupplied False =
   Inr [(''name'', YStr ''demo''),
         (''inputs'', YList [YStr ''raw'']),
         (''outputs'', YList [YStr ''train.model'', YStr ''train.model'']),
         (''components'', YList
            [YDict [(''clean'', YDict example_clean)],
             YDict [(''train'', YDict example_train)]])]"
  by (simp add: read_definition_def pipeline_entry_def example_unsupplied_def load_yaml_def
      Builder_init_def example_definition_def is_subset_of_def)

lemma example_components:
  "add_components example_spawn Inr False
     [YDict [(''clean'', YDict example_clean)], YDict [(''train'', YDict example_train)]] []
     (Pipeline_init (YStr ''demo'') :: (string \<times> kwargs, string) Pipeline) =
   ([(''clean'', example_clean), (''train'', example_train)],
    Inr \<lparr>pipeline_name = YStr ''demo'',
         tasks = [(''clean'', example_clean), (''train'', example_train)], inputs = [],
         expected_outputs = []\<rparr>)"
  by (simp add: example_parse example_spawn_def Pipeline_init_def add_task_def)

lemma example_cyclic_table:
  "lookup_table example_cyclic =
     Inr [(''a.out'', ProducedBy ''a''), (''b.out'', ProducedBy ''b'')]"
  by (simp add: lookup_table_def producers_def example_cyclic_def example_task_a_def
      example_task_b_def output_full_name_def full_name_def)

lemma example_cyclic_resolve: "resolve example_cyclic = Inl (CyclicDependency ''a'')"
  unfolding resolve_def example_cyclic_table
  by (simp add: example_cyclic_def example_task_a_def example_task_b_def toposort.simps
      ready_def dependencies_def blocker_def List.map_filter_simps numeral_2_eq_2)

lemma example_resolved_table:
  "lookup_table example_resolved =
     Inr [(''raw'', External), (''train.model'', ProducedBy ''train''),
          (''clean.clean_data'', ProducedBy ''clean'')]"
  by (simp add: lookup_table_def producers_def example_resolved_def example_task_clean_def
      example_task_train_def output_full_name_def full_name_def)

lemma example_resolved_resolve:
  "resolve example_resolved = Inr [example_task_clean, example_task_train]"
  unfolding resolve_def example_resolved_table
  by (simp add: example_resolved_def example_task_clean_def example_task_train_def
      toposort.simps ready_def dependencies_def List.map_filter_simps)

lemma example_resolved_run:
  "run example_registry example_resolved =
     \<lparr>executed = [''clean'', ''train''],
      outcome = Inr
        [(''raw'', \<lparr>content = ''x'', name = ''raw'', parent_task_name = []\<rparr>),
         (''clean.clean_data'',
            \<lparr>content = ''c'', name = ''clean_data'', parent_task_name = ''clean''\<rparr>),
         (''train.model'', \<lparr>content = ''m'', name = ''model'', parent_task_name = ''train''\<rparr>)]\<rparr>"
  unfolding run_def example_resolved_resolve
  by (simp add: example_registry_def example_task_clean_def example_task_train_def
      available_inputs_def external_inputs_def example_resolved_def full_name_def
      execute_task_def output_full_name_def expected_present_def)

section \<open>The claims\<close>

text \<open>
  C1. The full name of a Consumable is the parent task name, a dot and the name when the
  parent task name is not empty, and the name alone when it is empty. It is a function of
  the stored fields: after the fields are changed it is the full name of the new fields.
\<close>

theorem full_name_computed:
  "(parent_task_name c \<noteq> [] \<longrightarrow> full_name c = parent_task_name c @ ''.'' @ name c) \<and>
   (parent_task_name c = [] \<longrightarrow> full_name c = name c) \<and>
   full_name (c\<lparr>name := n, parent_task_name := q\<rparr>) = (if q \<noteq> [] then q @ ''.'' @ n else n)"
  by (simp add: full_name_def)

theorem full_name_computed_witness:
  "full_name \<lparr>content = ''x'', name = ''clean_data'', parent_task_name = ''clean''\<rparr> =
     ''clean.clean_data'' \<and>
   full_name \<lparr>content = ''x'', name = ''raw'', parent_task_name = []\<rparr> = ''raw''"
  using full_name_computed [of "\<lparr>content = ''x'', name = ''clean_data'', parent_task_name = ''clean''\<rparr>"]
    full_name_computed [of "\<lparr>content = ''x'', name = ''raw'', parent_task_name = []\<rparr>"]
  by simp


text \<open>
  C2. Every Consumable among the inputs of a Pipeline that \<^verbatim>\<open>build_pipeline\<close> returns
  was constructed without a parent task name: its parent task name is empty, its full name
  is its bare name, and that name is one of the declared inputs of the definition.
\<close>

theorem declared_input_consumables_external:
  assumes "returned (build_pipeline spawn l2d self bad_yaml verbose) = Inr p"
    and "c \<in> set (inputs p)"
  shows "parent_task_name c = [] \<and> full_name c = name c \<and>
    Consumable_init (name c) (content c) None = Inr c \<and>
    (\<exists>d declared. read_definition l2d self bad_yaml = Inr d \<and>
       items_of d ''inputs'' = Inr declared \<and> YStr (name c) \<in> set declared)"
proof -
  from build_pipeline_shape [OF assms(1)] obtain d names where
    rd: "read_definition l2d self bad_yaml = Inr d" and
    ins: "items_of d ''inputs'' = Inr (map YStr names)" and
    inp: "inputs p = map (\<lambda>n. \<lparr>content = the (command_line_inputs self n), name = n,
                   parent_task_name = []\<rparr>) names"
    by blast
  from assms(2) inp obtain n where n: "n \<in> set names" and
    c: "c = \<lparr>content = the (command_line_inputs self n), name = n, parent_task_name = []\<rparr>"
    by auto
  have "YStr (name c) \<in> set (map YStr names)"
    using n c by simp
  with rd ins have "\<exists>d declared. read_definition l2d self bad_yaml = Inr d \<and>
       items_of d ''inputs'' = Inr declared \<and> YStr (name c) \<in> set declared"
    by blast
  then show ?thesis
    using c by (simp add: full_name_def Consumable_init_def)
qed

theorem declared_input_consumables_external_witness:
  "returned (build_pipeline example_spawn Inr example_builder False True) = Inr example_pipeline \<and>
   \<lparr>content = ''x'', name = ''raw'', parent_task_name = []\<rparr> \<in> set (inputs example_pipeline) \<and>
   full_name \<lparr>content = ''x'', name = ''raw'', parent_task_name = []\<rparr> = ''raw''"
proof -
  have r: "returned (build_pipeline example_spawn Inr example_builder False True) =
      Inr example_pipeline"
    by (simp add: example_build)
  have m: "\<lparr>content = ''x'', name = ''raw'', parent_task_name = []\<rparr> \<in> set (inputs example_pipeline)"
    by (simp add: example_pipeline_def)
  from declared_input_consumables_external [OF r m] r m show ?thesis
    by simp
qed


text \<open>
  C5, as the claim states it, fails: the constructor has no check, and an empty name gives
  a Consumable like any other name.
\<close>

theorem Consumable_init_empty_name_accepted:
  "Consumable_init [] ''x'' None = Inr \<lparr>content = ''x'', name = [], parent_task_name = []\<rparr>"
  by (simp add: Consumable_init_def)

text \<open>
  C5, amended. The constructor never fails and stores its arguments as given, an empty name
  included; an omitted parent task name is stored as the empty string.
\<close>

theorem Consumable_init_stores_arguments:
  "Consumable_init nm c None = Inr \<lparr>content = c, name = nm, parent_task_name = []\<rparr> \<and>
   Consumable_init nm c (Some q) = Inr \<lparr>content = c, name = nm, parent_task_name = q\<rparr>"
  by (simp add: Consumable_init_def)


text \<open>
  C6. A Pipeline that \<^verbatim>\<open>build_pipeline\<close> returns has one task for each entry of the
  \<^verbatim>\<open>components\<close> sequence, in the order of the sequence: the task at position \<open>i\<close> is
  the one spawned from the entry at position \<open>i\<close>.
\<close>

theorem tasks_in_declaration_order:
  assumes "returned (build_pipeline spawn l2d self bad_yaml verbose) = Inr p"
  shows "\<exists>d components.
      read_definition l2d self bad_yaml = Inr d \<and>
      items_of d ''components'' = Inr components \<and>
      length (tasks p) = length components \<and>
      (\<forall>i < length components. \<exists>c_name component_dict.
          parse_component l2d bad_yaml (components ! i) = Inr (c_name, component_dict) \<and>
          spawn c_name component_dict = Inr (tasks p ! i))"
proof -
  let ?calls = "spawn_calls (build_pipeline spawn l2d self bad_yaml verbose)"
  from build_pipeline_shape [OF assms] obtain d comps where
    rd: "read_definition l2d self bad_yaml = Inr d" and
    comps: "items_of d ''components'' = Inr comps" and
    a: "map (parse_component l2d bad_yaml) comps = map Inr ?calls" and
    b: "map (\<lambda>nk. spawn (fst nk) (snd nk)) ?calls = map Inr (tasks p)"
    by blast
  from map_eq_nth [OF a] have la: "length comps = length ?calls" and
    na: "\<And>i. i < length comps \<Longrightarrow> parse_component l2d bad_yaml (comps ! i) = Inr (?calls ! i)"
    by auto
  from map_eq_nth [OF b] have lb: "length ?calls = length (tasks p)" and
    nb: "\<And>i. i < length ?calls \<Longrightarrow> spawn (fst (?calls ! i)) (snd (?calls ! i)) = Inr (tasks p ! i)"
    by auto
  have "\<forall>i < length comps. \<exists>c_name component_dict.
          parse_component l2d bad_yaml (comps ! i) = Inr (c_name, component_dict) \<and>
          spawn c_name component_dict = Inr (tasks p ! i)"
  proof (intro allI impI)
    fix i assume i: "i < length comps"
    show "\<exists>c_name component_dict.
          parse_component l2d bad_yaml (comps ! i) = Inr (c_name, component_dict) \<and>
          spawn c_name component_dict = Inr (tasks p ! i)"
      by (intro exI [of _ "fst (?calls ! i)"] exI [of _ "snd (?calls ! i)"])
        (use na [OF i] nb [of i] i la in simp)
  qed
  with rd comps la lb show ?thesis
    by (intro exI [of _ d] exI [of _ comps]) simp
qed

theorem tasks_in_declaration_order_witness:
  "returned (build_pipeline example_spawn Inr example_builder False True) = Inr example_pipeline \<and>
   tasks example_pipeline = [(''clean'', example_clean), (''train'', example_train)] \<and>
   items_of (projr (read_definition Inr example_builder False)) ''components'' =
     Inr [YDict [(''clean'', YDict example_clean)], YDict [(''train'', YDict example_train)]]"
proof -
  have r: "returned (build_pipeline example_spawn Inr example_builder False True) =
      Inr example_pipeline"
    by (simp add: example_build)
  from tasks_in_declaration_order [OF r] r show ?thesis
    by (simp add: example_pipeline_def example_read items_of_def py_getitem_def)
qed

text \<open>
  C10. The flag \<^verbatim>\<open>verbose\<close> decides only what is printed: with and without it,
  \<^verbatim>\<open>build_pipeline\<close> raises the same exception or returns the same Pipeline, and makes
  the same calls of the task factory.
\<close>

theorem verbose_only_prints:
  "returned (build_pipeline spawn l2d self bad_yaml True) =
     returned (build_pipeline spawn l2d self bad_yaml False) \<and>
   spawn_calls (build_pipeline spawn l2d self bad_yaml True) =
     spawn_calls (build_pipeline spawn l2d self bad_yaml False) \<and>
   stdout (build_pipeline spawn l2d self bad_yaml True) = [''Building pipeline...''] \<and>
   stdout (build_pipeline spawn l2d self bad_yaml False) = []"
  unfolding build_pipeline_def Let_def
  by (simp split: sum.splits prod.splits)

text \<open>
  C3, as the claim states it, fails: a \<^verbatim>\<open>pipeline\<close> entry that is a string has none of
  the required keys, and an empty document has no \<^verbatim>\<open>pipeline\<close> entry, yet neither raises
  a \<^verbatim>\<open>PipelineParsingError\<close>: the calls of \<^verbatim>\<open>keys\<close> and of \<^verbatim>\<open>get\<close> raise
  \<^verbatim>\<open>AttributeError\<close>.
\<close>

theorem entry_without_keys_raises_attribute_error:
  "build_pipeline example_spawn Inr example_string_entry False False =
     \<lparr>stdout = [], spawn_calls = [], returned = Inl AttributeError\<rparr> \<and>
   build_pipeline example_spawn Inr example_empty_document False False =
     \<lparr>stdout = [], spawn_calls = [], returned = Inl AttributeError\<rparr>"
  by (simp add: build_pipeline_def read_definition_def pipeline_entry_def
      example_string_entry_def example_empty_document_def load_yaml_def Builder_init_def)

text \<open>
  C3, amended. For a definition tree that is a mapping: with no \<^verbatim>\<open>pipeline\<close> entry, or an
  empty one, \<^verbatim>\<open>build_pipeline\<close> raises the \<^verbatim>\<open>PipelineParsingError\<close> of the missing
  definition; with a \<^verbatim>\<open>pipeline\<close> entry that is a mapping and lacks one of the keys
  \<^verbatim>\<open>name\<close>, \<^verbatim>\<open>inputs\<close>, \<^verbatim>\<open>outputs\<close>, \<^verbatim>\<open>components\<close>, it raises the
  \<^verbatim>\<open>PipelineParsingError\<close> of the missing keys (the third part reads the entry as it is,
  the fourth after the conversion of \<^verbatim>\<open>bad_yaml\<close>). A tree that is no mapping, and a
  non-empty \<^verbatim>\<open>pipeline\<close> entry that is no mapping, raise \<^verbatim>\<open>AttributeError\<close>. In each
  case, and for every other failure of these checks, no Pipeline is returned and the task
  factory has not been called.
\<close>

theorem structural_failure_before_tasks:
  "(parsed_yaml self = YDict root \<and> map_of root ''pipeline'' = None \<longrightarrow>
      build_pipeline spawn l2d self bad_yaml verbose =
        \<lparr>stdout = (if verbose then [''Building pipeline...''] else []), spawn_calls = [],
         returned = Inl (PipelineParsingError ''Missing pipeline definition.'')\<rparr>) \<and>
   (parsed_yaml self = YDict root \<and> map_of root ''pipeline'' = Some v \<and> \<not> truthy v \<longrightarrow>
      build_pipeline spawn l2d self bad_yaml verbose =
        \<lparr>stdout = (if verbose then [''Building pipeline...''] else []), spawn_calls = [],
         returned = Inl (PipelineParsingError ''Missing pipeline definition.'')\<rparr>) \<and>
   (parsed_yaml self = YDict root \<and> map_of root ''pipeline'' = Some (YDict d) \<and> d \<noteq> [] \<and>
    k \<in> set [''name'', ''inputs'', ''outputs'', ''components''] \<and> k \<notin> fst ` set d \<longrightarrow>
      build_pipeline spawn l2d self False verbose =
        \<lparr>stdout = (if verbose then [''Building pipeline...''] else []), spawn_calls = [],
         returned = Inl (PipelineParsingError ''Pipeline missing key attributes.'')\<rparr>) \<and>
   (pipeline_entry l2d self bad_yaml = Inr (YDict d) \<and>
    k \<in> set [''name'', ''inputs'', ''outputs'', ''components''] \<and> k \<notin> fst ` set d \<longrightarrow>
      build_pipeline spawn l2d self bad_yaml verbose =
        \<lparr>stdout = (if verbose then [''Building pipeline...''] else []), spawn_calls = [],
         returned = Inl (PipelineParsingError ''Pipeline missing key attributes.'')\<rparr>) \<and>
   (\<not> is_mapping (parsed_yaml self) \<longrightarrow>
      build_pipeline spawn l2d self bad_yaml verbose =
        \<lparr>stdout = (if verbose then [''Building pipeline...''] else []), spawn_calls = [],
         returned = Inl AttributeError\<rparr>) \<and>
   (parsed_yaml self = YDict root \<and> map_of root ''pipeline'' = Some v \<and> truthy v \<and>
    \<not> is_mapping v \<longrightarrow>
      build_pipeline spawn l2d self False verbose =
        \<lparr>stdout = (if verbose then [''Building pipeline...''] else []), spawn_calls = [],
         returned = Inl AttributeError\<rparr>) \<and>
   (read_definition l2d self bad_yaml = Inl e \<longrightarrow>
      build_pipeline spawn l2d self bad_yaml verbose =
        \<lparr>stdout = (if verbose then [''Building pipeline...''] else []), spawn_calls = [],
         returned = Inl e\<rparr>)"
proof (intro conjI impI)
  assume "parsed_yaml self = YDict root \<and> map_of root ''pipeline'' = None"
  then have "read_definition l2d self bad_yaml =
      Inl (PipelineParsingError ''Missing pipeline definition.'')"
    by (blast intro: read_definition_no_entry)
  then show "build_pipeline spawn l2d self bad_yaml verbose =
        \<lparr>stdout = (if verbose then [''Building pipeline...''] else []), spawn_calls = [],
         returned = Inl (PipelineParsingError ''Missing pipeline definition.'')\<rparr>"
    by (rule build_pipeline_failed_read)
next
  assume "parsed_yaml self = YDict root \<and> map_of root ''pipeline'' = Some v \<and> \<not> truthy v"
  then have "read_definition l2d self bad_yaml =
      Inl (PipelineParsingError ''Missing pipeline definition.'')"
    by (blast intro: read_definition_falsy_entry)
  then show "build_pipeline spawn l2d self bad_yaml verbose =
        \<lparr>stdout = (if verbose then [''Building pipeline...''] else []), spawn_calls = [],
         returned = Inl (PipelineParsingError ''Missing pipeline definition.'')\<rparr>"
    by (rule build_pipeline_failed_read)
next
  assume a: "parsed_yaml self = YDict root \<and> map_of root ''pipeline'' = Some (YDict d) \<and> d \<noteq> [] \<and>
    k \<in> set [''name'', ''inputs'', ''outputs'', ''components''] \<and> k \<notin> fst ` set d"
  then have "pipeline_entry l2d self False = Inr (YDict d)"
    by (blast intro: pipeline_entry_mapping)
  with a have "read_definition l2d self False =
      Inl (PipelineParsingError ''Pipeline missing key attributes.'')"
    by (blast intro: read_definition_missing_key)
  then show "build_pipeline spawn l2d self False verbose =
        \<lparr>stdout = (if verbose then [''Building pipeline...''] else []), spawn_calls = [],
         returned = Inl (PipelineParsingError ''Pipeline missing key attributes.'')\<rparr>"
    by (rule build_pipeline_failed_read)
next
  assume "pipeline_entry l2d self bad_yaml = Inr (YDict d) \<and>
    k \<in> set [''name'', ''inputs'', ''outputs'', ''components''] \<and> k \<notin> fst ` set d"
  then have "read_definition l2d self bad_yaml =
        Inl (PipelineParsingError ''Pipeline missing key attributes.'')"
    by (blast intro: read_definition_missing_key)
  then show "build_pipeline spawn l2d self bad_yaml verbose =
        \<lparr>stdout = (if verbose then [''Building pipeline...''] else []), spawn_calls = [],
         returned = Inl (PipelineParsingError ''Pipeline missing key attributes.'')\<rparr>"
    by (rule build_pipeline_failed_read)
next
  assume "\<not> is_mapping (parsed_yaml self)"
  then have "read_definition l2d self bad_yaml = Inl AttributeError"
    by (rule read_definition_no_mapping)
  then show "build_pipeline spawn l2d self bad_yaml verbose =
        \<lparr>stdout = (if verbose then [''Building pipeline...''] else []), spawn_calls = [],
         returned = Inl AttributeError\<rparr>"
    by (rule build_pipeline_failed_read)
next
  assume "parsed_yaml self = YDict root \<and> map_of root ''pipeline'' = Some v \<and> truthy v \<and>
    \<not> is_mapping v"
  then have "read_definition l2d self False = Inl AttributeError"
    by (blast intro: read_definition_entry_no_mapping)
  then show "build_pipeline spawn l2d self False verbose =
        \<lparr>stdout = (if verbose then [''Building pipeline...''] else []), spawn_calls = [],
         returned = Inl AttributeError\<rparr>"
    by (rule build_pipeline_failed_read)
next
  assume "read_definition l2d self bad_yaml = Inl e"
  then show "build_pipeline spawn l2d self bad_yaml verbose =
        \<lparr>stdout = (if verbose then [''Building pipeline...''] else []), spawn_calls = [],
         returned = Inl e\<rparr>"
    by (rule build_pipeline_failed_read)
qed

theorem structural_failure_before_tasks_witness:
  "build_pipeline example_spawn Inr (Builder_init :: string Builder) False False =
     \<lparr>stdout = [], spawn_calls = [],
      returned = Inl (PipelineParsingError ''Missing pipeline definition.'')\<rparr> \<and>
   build_pipeline example_spawn Inr example_incomplete False False =
     \<lparr>stdout = [], spawn_calls = [],
      returned = Inl (PipelineParsingError ''Pipeline missing key attributes.'')\<rparr> \<and>
   returned (build_pipeline example_spawn Inr
     (load_yaml Builder_init (YList [YStr ''pipeline'']) :: string Builder) False False) =
     Inl AttributeError \<and>
   returned (build_pipeline example_spawn Inr
     (load_yaml Builder_init (YDict [(''pipeline'', YList [YStr ''name''])]) :: string Builder)
     False False) = Inl AttributeError"
proof -
  let ?incomplete = "[(''name'', YStr ''demo''), (''inputs'', YList [YStr ''raw''])]"
  let ?listed = "load_yaml Builder_init (YList [YStr ''pipeline'']) :: string Builder"
  let ?entry = "load_yaml Builder_init (YDict [(''pipeline'', YList [YStr ''name''])])
    :: string Builder"
  have a: "parsed_yaml (Builder_init :: string Builder) = YDict [] \<and>
      map_of ([] :: (string \<times> yaml) list) ''pipeline'' = None"
    by (simp add: Builder_init_def)
  have b: "parsed_yaml example_incomplete = YDict [(''pipeline'', YDict ?incomplete)] \<and>
    map_of [(''pipeline'', YDict ?incomplete)] ''pipeline'' = Some (YDict ?incomplete) \<and>
    ?incomplete \<noteq> [] \<and>
    ''components'' \<in> set [''name'', ''inputs'', ''outputs'', ''components''] \<and>
    ''components'' \<notin> fst ` set ?incomplete"
    by (simp add: example_incomplete_def load_yaml_def Builder_init_def)
  have c: "\<not> is_mapping (parsed_yaml ?listed)"
    by (simp add: load_yaml_def Builder_init_def)
  have d: "parsed_yaml ?entry = YDict [(''pipeline'', YList [YStr ''name''])] \<and>
    map_of [(''pipeline'', YList [YStr ''name''])] ''pipeline'' = Some (YList [YStr ''name'']) \<and>
    truthy (YList [YStr ''name'']) \<and> \<not> is_mapping (YList [YStr ''name''])"
    by (simp add: load_yaml_def Builder_init_def)
  from structural_failure_before_tasks
      [where self = "Builder_init :: string Builder" and spawn = example_spawn and l2d = Inr
        and bad_yaml = False and verbose = False and root = "[]"] a
  have 1: "build_pipeline example_spawn Inr (Builder_init :: string Builder) False False =
     \<lparr>stdout = [], spawn_calls = [],
      returned = Inl (PipelineParsingError ''Missing pipeline definition.'')\<rparr>"
    by simp
  from structural_failure_before_tasks
      [where self = example_incomplete and spawn = example_spawn and l2d = Inr
        and bad_yaml = False and verbose = False and k = "''components''"
        and d = ?incomplete and root = "[(''pipeline'', YDict ?incomplete)]"] b
  have 2: "build_pipeline example_spawn Inr example_incomplete False False =
     \<lparr>stdout = [], spawn_calls = [],
      returned = Inl (PipelineParsingError ''Pipeline missing key attributes.'')\<rparr>"
    by simp
  from structural_failure_before_tasks
      [where self = ?listed and spawn = example_spawn and l2d = Inr
        and bad_yaml = False and verbose = False] c
  have 3: "returned (build_pipeline example_spawn Inr ?listed False False) = Inl AttributeError"
    by simp
  from structural_failure_before_tasks
      [where self = ?entry and spawn = example_spawn and l2d = Inr
        and bad_yaml = False and verbose = False
        and root = "[(''pipeline'', YList [YStr ''name''])]" and v = "YList [YStr ''name'']"] d
  have 4: "returned (build_pipeline example_spawn Inr ?entry False False) = Inl AttributeError"
    by simp
  from 1 2 3 4 show ?thesis by simp
qed




text \<open>
  C8. A Pipeline is returned only when every declared input is a name with a value among
  the command line inputs, and then its inputs are one external Consumable per declared
  input, in order, whose content is the supplied value. A declared name with no value makes
  \<^verbatim>\<open>build_pipeline\<close> raise; once the components are spawned, the exception is the
  \<^verbatim>\<open>PipelineParsingError\<close> that names the first such input.
\<close>

theorem declared_inputs_supplied:
  fixes self :: "'c Builder" and with_tasks :: "('t, 'c) Pipeline"
  shows
  "(returned (build_pipeline spawn l2d self bad_yaml verbose) = Inr p \<longrightarrow>
      (\<exists>d names. read_definition l2d self bad_yaml = Inr d \<and>
         items_of d ''inputs'' = Inr (map YStr names) \<and>
         (\<forall>n \<in> set names. command_line_inputs self n \<noteq> None) \<and>
         inputs p =
           map (\<lambda>n. \<lparr>content = the (command_line_inputs self n), name = n,
                      parent_task_name = []\<rparr>) names)) \<and>
   (read_definition l2d self bad_yaml = Inr d \<and> items_of d ''inputs'' = Inr declared \<and>
    YStr n \<in> set declared \<and> command_line_inputs self n = None \<longrightarrow>
      isl (returned (build_pipeline spawn l2d self bad_yaml verbose))) \<and>
   (read_definition l2d self bad_yaml = Inr d \<and> py_getitem d ''name'' = Inr nm \<and>
    items_of d ''components'' = Inr comps \<and>
    add_components spawn l2d bad_yaml comps [] (Pipeline_init nm) = (calls, Inr with_tasks) \<and>
    items_of d ''inputs'' = Inr (map YStr (pre @ n # post)) \<and>
    (\<forall>m \<in> set pre. command_line_inputs self m \<noteq> None) \<and> command_line_inputs self n = None \<longrightarrow>
      returned (build_pipeline spawn l2d self bad_yaml verbose) =
        Inl (PipelineParsingError
          (''Pipeline declared input '' @ n @ '' not found in command line inputs!'')))"
proof (intro conjI impI)
  assume "returned (build_pipeline spawn l2d self bad_yaml verbose) = Inr p"
  from build_pipeline_shape [OF this]
  show "\<exists>d names. read_definition l2d self bad_yaml = Inr d \<and>
         items_of d ''inputs'' = Inr (map YStr names) \<and>
         (\<forall>n \<in> set names. command_line_inputs self n \<noteq> None) \<and>
         inputs p =
           map (\<lambda>n. \<lparr>content = the (command_line_inputs self n), name = n,
                      parent_task_name = []\<rparr>) names"
    by blast
next
  assume a: "read_definition l2d self bad_yaml = Inr d \<and> items_of d ''inputs'' = Inr declared \<and>
    YStr n \<in> set declared \<and> command_line_inputs self n = None"
  show "isl (returned (build_pipeline spawn l2d self bad_yaml verbose))"
  proof (cases "returned (build_pipeline spawn l2d self bad_yaml verbose)")
    case (Inl e)
    then show ?thesis by simp
  next
    case (Inr p)
    from build_pipeline_shape [OF this] a obtain names where
      "declared = map YStr names" "\<forall>n \<in> set names. command_line_inputs self n \<noteq> None"
      by auto
    with a show ?thesis by auto
  qed
next
  assume a: "read_definition l2d self bad_yaml = Inr d \<and> py_getitem d ''name'' = Inr nm \<and>
    items_of d ''components'' = Inr comps \<and>
    add_components spawn l2d bad_yaml comps [] (Pipeline_init nm) = (calls, Inr with_tasks) \<and>
    items_of d ''inputs'' = Inr (map YStr (pre @ n # post)) \<and>
    (\<forall>m \<in> set pre. command_line_inputs self m \<noteq> None) \<and> command_line_inputs self n = None"
  then have "add_inputs (command_line_inputs self) (map YStr (pre @ n # post)) with_tasks =
     Inl (PipelineParsingError
       (''Pipeline declared input '' @ n @ '' not found in command line inputs!''))"
    by (intro add_inputs_first_absent) simp_all
  moreover from a have "returned (build_pipeline spawn l2d self bad_yaml verbose) =
      (case Inr with_tasks of
         Inl e \<Rightarrow> Inl e
       | Inr with_tasks \<Rightarrow>
           (case items_of d ''inputs'' of
              Inl e \<Rightarrow> Inl e
            | Inr ins \<Rightarrow>
                (case add_inputs (command_line_inputs self) ins with_tasks of
                   Inl e \<Rightarrow> Inl e
                 | Inr p2 \<Rightarrow>
                     (case items_of d ''outputs'' of
                        Inl e \<Rightarrow> Inl e
                      | Inr outs \<Rightarrow> add_outputs outs p2))))"
    using build_pipeline_components [of l2d self bad_yaml d nm comps spawn calls "Inr with_tasks" verbose]
    by simp
  ultimately show "returned (build_pipeline spawn l2d self bad_yaml verbose) =
        Inl (PipelineParsingError
          (''Pipeline declared input '' @ n @ '' not found in command line inputs!''))"
    using a by simp
qed

theorem declared_inputs_supplied_witness:
  "returned (build_pipeline example_spawn Inr example_builder False False) = Inr example_pipeline \<and>
   inputs example_pipeline = [\<lparr>content = ''x'', name = ''raw'', parent_task_name = []\<rparr>] \<and>
   command_line_inputs example_unsupplied ''raw'' = None \<and>
   returned (build_pipeline example_spawn Inr example_unsupplied False False) =
     Inl (PipelineParsingError ''Pipeline declared input raw not found in command line inputs!'')"
proof -
  let ?d = "[(''name'', YStr ''demo''),
         (''inputs'', YList [YStr ''raw'']),
         (''outputs'', YList [YStr ''train.model'', YStr ''train.model'']),
         (''components'', YList
            [YDict [(''clean'', YDict example_clean)],
             YDict [(''train'', YDict example_train)]])]"
  let ?with_tasks = "\<lparr>pipeline_name = YStr ''demo'',
         tasks = [(''clean'', example_clean), (''train'', example_train)],
         inputs = ([] :: string Consumable list), expected_outputs = []\<rparr>"
  have r: "returned (build_pipeline example_spawn Inr example_builder False False) =
      Inr example_pipeline"
    by (simp add: example_build)
  have c: "command_line_inputs example_unsupplied ''raw'' = None"
    by (simp add: example_unsupplied_def load_yaml_def Builder_init_def)
  have 1: "\<exists>d names. read_definition Inr example_builder False = Inr d \<and>
         items_of d ''inputs'' = Inr (map YStr names) \<and>
         (\<forall>n \<in> set names. command_line_inputs example_builder n \<noteq> None) \<and>
         inputs example_pipeline =
           map (\<lambda>n. \<lparr>content = the (command_line_inputs example_builder n), name = n,
                      parent_task_name = []\<rparr>) names"
    using declared_inputs_supplied
      [where self = example_builder and spawn = example_spawn and l2d = Inr
        and bad_yaml = False and verbose = False and p = example_pipeline
        and with_tasks = ?with_tasks] r
    by blast
  have 2: "returned (build_pipeline example_spawn Inr example_unsupplied False False) =
     Inl (PipelineParsingError ''Pipeline declared input raw not found in command line inputs!'')"
    using declared_inputs_supplied
      [where self = example_unsupplied and spawn = example_spawn and l2d = Inr
        and bad_yaml = False and verbose = False and d = ?d and nm = "YStr ''demo''"
        and comps = "[YDict [(''clean'', YDict example_clean)],
             YDict [(''train'', YDict example_train)]]"
        and calls = "[(''clean'', example_clean), (''train'', example_train)]"
        and with_tasks = ?with_tasks and pre = "[]" and n = "''raw''" and post = "[]"]
      example_unsupplied_read example_components c
    by (simp add: py_getitem_def items_of_def)
  have 3: "inputs example_pipeline = [\<lparr>content = ''x'', name = ''raw'', parent_task_name = []\<rparr>]"
    by (simp add: example_pipeline_def)
  from r 2 3 c show ?thesis by simp
qed

text \<open>
  C9. The expected outputs of a returned Pipeline hold each declared output once: they are
  the declared outputs in order of first occurrence, without repetition. A declared output
  that is already expected is skipped.
\<close>

theorem expected_outputs_registered_once:
  "(returned (build_pipeline spawn l2d self bad_yaml verbose) = Inr p \<longrightarrow>
      distinct (expected_outputs p) \<and>
      (\<exists>d declared. read_definition l2d self bad_yaml = Inr d \<and>
         items_of d ''outputs'' = Inr declared \<and>
         set (expected_outputs p) = set declared \<and>
         expected_outputs p = rev (remdups (rev declared)))) \<and>
   (py_hashable out \<and> out \<in> set (expected_outputs q) \<longrightarrow>
      add_outputs (out # rest) q = add_outputs rest q)"
proof (intro conjI impI)
  assume "returned (build_pipeline spawn l2d self bad_yaml verbose) = Inr p"
  from build_pipeline_shape [OF this] obtain d declared where
    a: "read_definition l2d self bad_yaml = Inr d" "items_of d ''outputs'' = Inr declared"
      "expected_outputs p = rev (remdups (rev declared))"
    by blast
  then show "distinct (expected_outputs p)"
    by simp
  from a have "set (expected_outputs p) = set declared"
    by simp
  with a show "\<exists>d declared. read_definition l2d self bad_yaml = Inr d \<and>
         items_of d ''outputs'' = Inr declared \<and>
         set (expected_outputs p) = set declared \<and>
         expected_outputs p = rev (remdups (rev declared))"
    by blast
next
  assume "py_hashable out \<and> out \<in> set (expected_outputs q)"
  then show "add_outputs (out # rest) q = add_outputs rest q"
    by simp
qed

theorem expected_outputs_registered_once_witness:
  "returned (build_pipeline example_spawn Inr example_builder False False) = Inr example_pipeline \<and>
   items_of (projr (read_definition Inr example_builder False)) ''outputs'' =
     Inr [YStr ''train.model'', YStr ''train.model''] \<and>
   expected_outputs example_pipeline = [YStr ''train.model''] \<and>
   distinct (expected_outputs example_pipeline)"
proof -
  have r: "returned (build_pipeline example_spawn Inr example_builder False False) =
      Inr example_pipeline"
    by (simp add: example_build)
  have d: "distinct (expected_outputs example_pipeline)"
    using expected_outputs_registered_once
      [where self = example_builder and spawn = example_spawn and l2d = Inr
        and bad_yaml = False and verbose = False and p = example_pipeline] r
    by blast
  have "expected_outputs example_pipeline = [YStr ''train.model'']"
    by (simp add: example_pipeline_def)
  with r d show ?thesis
    by (simp add: example_read items_of_def py_getitem_def)
qed

text \<open>
  C7. In a Pipeline where a task consumes an output of a second task and the second an
  output of the first, resolution fails and the run starts no task. When no full name has
  two producers and every reference resolves, so that the first two steps of the
  resolution pass, the failure is \<^verbatim>\<open>CyclicDependency\<close>.
\<close>

theorem mutual_dependency_fails_resolution:
  fixes p :: "(Task, 'c) Pipeline"
  assumes "X \<in> set (tasks p)" "Y \<in> set (tasks p)"
    and "\<exists>out \<in> set (declared_outputs Y). output_full_name Y out \<in> snd ` set (input_refs X)"
    and "\<exists>out \<in> set (declared_outputs X). output_full_name X out \<in> snd ` set (input_refs Y)"
  shows "(\<exists>e. resolve p = Inl e \<and> run registry p = \<lparr>executed = [], outcome = Inl e\<rparr>) \<and>
    (distinct (map fst (producers p)) \<and>
     (\<forall>t \<in> set (tasks p). snd ` set (input_refs t) \<subseteq> fst ` set (producers p)) \<longrightarrow>
       (\<exists>n. resolve p = Inl (CyclicDependency n) \<and>
            run registry p = \<lparr>executed = [], outcome = Inl (CyclicDependency n)\<rparr>))"
proof (intro conjI impI)
  have "\<exists>e. resolve p = Inl e"
  proof (cases "distinct (map fst (producers p))")
    case False
    with lookup_table_cases [of p] show ?thesis
      by (auto simp: resolve_def)
  next
    case True
    with lookup_table_cases [of p] have lt: "lookup_table p = Inr (producers p)"
      by auto
    from toposort_of_pipeline [OF assms True] obtain n where
      "toposort (producers p) (tasks p) = Inl (CyclicDependency n)"
      by blast
    with lt show ?thesis
      by (cases "check_references (producers p) (tasks p)") (simp_all add: resolve_def)
  qed
  then show "\<exists>e. resolve p = Inl e \<and> run registry p = \<lparr>executed = [], outcome = Inl e\<rparr>"
    by (blast intro: run_unresolved)
next
  assume a: "distinct (map fst (producers p)) \<and>
     (\<forall>t \<in> set (tasks p). snd ` set (input_refs t) \<subseteq> fst ` set (producers p))"
  with lookup_table_cases [of p] have lt: "lookup_table p = Inr (producers p)"
    by auto
  from a toposort_of_pipeline [OF assms] obtain n where
    ts: "toposort (producers p) (tasks p) = Inl (CyclicDependency n)"
    by blast
  from a have "check_references (producers p) (tasks p) = Inr () \<or>
      (\<exists>n. check_references (producers p) (tasks p) = Inl (CyclicDependency n))"
    by (intro check_references_resolved) simp
  with lt ts have "\<exists>n. resolve p = Inl (CyclicDependency n)"
    by (auto simp: resolve_def)
  then show "\<exists>n. resolve p = Inl (CyclicDependency n) \<and>
            run registry p = \<lparr>executed = [], outcome = Inl (CyclicDependency n)\<rparr>"
    by (blast intro: run_unresolved)
qed

theorem mutual_dependency_fails_resolution_witness:
  "example_task_a \<in> set (tasks example_cyclic) \<and> example_task_b \<in> set (tasks example_cyclic) \<and>
   output_full_name example_task_b ''out'' \<in> snd ` set (input_refs example_task_a) \<and>
   output_full_name example_task_a ''out'' \<in> snd ` set (input_refs example_task_b) \<and>
   resolve example_cyclic = Inl (CyclicDependency ''a'') \<and>
   run example_registry example_cyclic =
     \<lparr>executed = [], outcome = Inl (CyclicDependency ''a'')\<rparr>"
proof -
  have 1: "example_task_a \<in> set (tasks example_cyclic)"
    and 2: "example_task_b \<in> set (tasks example_cyclic)"
    by (simp_all add: example_cyclic_def)
  have 3: "output_full_name example_task_b ''out'' \<in> snd ` set (input_refs example_task_a)"
    and 4: "output_full_name example_task_a ''out'' \<in> snd ` set (input_refs example_task_b)"
    by (simp_all add: example_task_a_def example_task_b_def output_full_name_def full_name_def)
  have 5: "\<exists>out \<in> set (declared_outputs example_task_b).
      output_full_name example_task_b out \<in> snd ` set (input_refs example_task_a)"
    using 3 by (simp add: example_task_b_def)
  have 6: "\<exists>out \<in> set (declared_outputs example_task_a).
      output_full_name example_task_a out \<in> snd ` set (input_refs example_task_b)"
    using 4 by (simp add: example_task_a_def)
  from mutual_dependency_fails_resolution [OF 1 2 5 6, of example_registry]
  obtain e where "resolve example_cyclic = Inl e"
    "run example_registry example_cyclic = \<lparr>executed = [], outcome = Inl e\<rparr>"
    by blast
  with example_cyclic_resolve 1 2 3 4 show ?thesis
    by simp
qed

end
